theory Spec2Isabelle
  imports Main "HOL-Library.Sublist" "HOL-Library.Multiset"
begin

section \<open>Strings\<close>

text \<open>
  Strings are byte strings. \<open>lower\<close> folds the ASCII letters only, which is what SQLite's
  \<open>lower()\<close> does and what Python's \<open>str.lower\<close> does on ASCII text.
\<close>

definition lower_char :: "char \<Rightarrow> char" where
  "lower_char c =
     (case map_of (zip ''ABCDEFGHIJKLMNOPQRSTUVWXYZ'' ''abcdefghijklmnopqrstuvwxyz'') c of
        None \<Rightarrow> c | Some d \<Rightarrow> d)"

definition lower :: "string \<Rightarrow> string" where
  "lower s = map lower_char s"

definition endswith :: "string \<Rightarrow> string \<Rightarrow> bool" where
  "endswith s suf = suffix suf s"

definition is_space :: "char \<Rightarrow> bool" where
  "is_space c = (c \<in> set [CHR '' '', CHR 0x09, CHR 0x0A, CHR 0x0B, CHR 0x0C, CHR 0x0D])"

definition strip :: "string \<Rightarrow> string" where
  "strip s = rev (dropWhile is_space (rev (dropWhile is_space s)))"

text \<open>\<open>os.path.join(a, b)\<close> for a relative or absolute second component.\<close>

definition os_path_join :: "string \<Rightarrow> string \<Rightarrow> string" where
  "os_path_join a b = (case b of [] \<Rightarrow> a @ ''/'' | c # cs \<Rightarrow> if c = CHR ''/'' then b else a @ ''/'' @ b)"

definition UPLOAD_FOLDER :: string where
  "UPLOAD_FOLDER = ''uploads''"



section \<open>Data model (models.py)\<close>

text \<open>
  The three tables the file routes use. Field names carry the table's initial, since the
  tables share the column names \<open>id\<close> and \<open>nombre\<close>. A table is the list of its rows in
  insertion order; \<open>fecha_subida\<close> is a timestamp.
\<close>

record materia =
  m_id :: nat
  m_nombre :: string

record curso =
  c_id :: nat
  c_docente_id :: nat
  c_materia_id :: nat
  c_periodo :: string

record archivo =
  a_id :: nat
  a_nombre :: string
  a_fecha_subida :: int
  a_docente_id :: nat
  a_curso_id :: nat

record database =
  materias :: "materia list"
  cursos :: "curso list"
  archivos :: "archivo list"

text \<open>The primary key of a new row: one more than the largest key in the table.\<close>

definition next_id :: "nat list \<Rightarrow> nat" where
  "next_id ids = Suc (fold max ids 0)"

section \<open>The world a request runs in\<close>

datatype log_entry =
    LogUploadError string
  | LogDeleteError string
  | LogPhysicalMissing string
  | LogCritical string
  | LogRenameDbError string

text \<open>
  \<open>db\<close> is the committed database, \<open>fs\<close> the files by path, \<open>log\<close> what the handlers print.
  Flask-SQLAlchemy removes the scoped session when the request ends, so rows that were
  flushed but not committed are gone with it: a handler returns the committed database.
\<close>

record world =
  db :: database
  fs :: "string \<rightharpoonup> string"
  log :: "log_entry list"

text \<open>
  Exceptions. The handlers tell \<open>IntegrityError\<close> from every other exception; both carry
  the text \<open>str(e)\<close>.
\<close>

datatype exn = IntegrityError string | OtherError string

fun str :: "exn \<Rightarrow> string" where
  "str (IntegrityError s) = s"
| "str (OtherError s) = s"

text \<open>
  The outcome of each write of a request, decided by the environment: \<open>None\<close> is success.
  A uniqueness violation comes from a row that a concurrent request committed after this
  request looked the row up. Reads do not fail. \<open>now\<close> is \<open>datetime.utcnow()\<close>.
\<close>

record env =
  flush_materia :: "exn option"
  flush_curso :: "exn option"
  save :: "string option"
  commit :: "exn option"
  remove :: "string option"
  rename :: "string option"
  rename_back :: "string option"
  now :: int

text \<open>Library functions the routes call: werkzeug's sanitizer, the root of
  \<open>os.path.splitext\<close>, and \<open>strftime\<close> with the listing's format.\<close>

record lib =
  secure_filename :: "string \<Rightarrow> string"
  splitext_root :: "string \<Rightarrow> string"
  strftime :: "int \<Rightarrow> string"

section \<open>Filesystem operations\<close>

definition os_path_exists :: "(string \<rightharpoonup> string) \<Rightarrow> string \<Rightarrow> bool" where
  "os_path_exists f p = (f p \<noteq> None)"

text \<open>\<open>file.save(path)\<close>: creates or overwrites; a failed save leaves the directory as it was.\<close>

definition file_save :: "string option \<Rightarrow> string \<Rightarrow> string \<Rightarrow> (string \<rightharpoonup> string) \<Rightarrow> string + (string \<rightharpoonup> string)" where
  "file_save outcome p bytes f = (case outcome of Some e \<Rightarrow> Inl e | None \<Rightarrow> Inr (f(p \<mapsto> bytes)))"

definition os_remove :: "string option \<Rightarrow> string \<Rightarrow> (string \<rightharpoonup> string) \<Rightarrow> string + (string \<rightharpoonup> string)" where
  "os_remove outcome p f =
     (if f p = None then Inl ''FileNotFoundError''
      else case outcome of Some e \<Rightarrow> Inl e | None \<Rightarrow> Inr (f(p := None)))"

text \<open>\<open>os.rename(src, dst)\<close>, POSIX: an existing destination is replaced.\<close>

definition os_rename :: "string option \<Rightarrow> string \<Rightarrow> string \<Rightarrow> (string \<rightharpoonup> string) \<Rightarrow> string + (string \<rightharpoonup> string)" where
  "os_rename outcome src dst f =
     (if f src = None then Inl ''FileNotFoundError''
      else case outcome of Some e \<Rightarrow> Inl e | None \<Rightarrow> Inr ((f(src := None))(dst := f src)))"

section \<open>Responses\<close>

datatype body =
    MsgMissingFields
  | MsgBadFormat
  | MsgAlreadyExists string
  | MsgUploadOk
  | MsgIntegrity string
  | MsgUploadUnexpected string
  | MsgDeleteNotFound
  | MsgDeleted string
  | MsgDeleteError string
  | MsgRenameMissing
  | MsgRenameNotFound
  | MsgRenameConflict
  | MsgRenameFsError string
  | MsgRenamed string
  | MsgRenameDbError string
  | NotFound
  | InternalServerError
  | SendFile string bool
  | JsonFiles "(nat \<times> string \<times> string \<times> string) list"
  | JsonUploadData "string list" "string list"

datatype response = Response (status: nat) (content: body)

section \<open>Queries\<close>

definition find_materia :: "string \<Rightarrow> database \<Rightarrow> materia option" where
  "find_materia nombre d = find (\<lambda>m. m_nombre m = nombre) (materias d)"

definition find_curso :: "nat \<Rightarrow> nat \<Rightarrow> string \<Rightarrow> database \<Rightarrow> curso option" where
  "find_curso docente mid periodo d =
     find (\<lambda>c. c_docente_id c = docente \<and> c_materia_id c = mid \<and> c_periodo c = periodo) (cursos d)"

definition find_archivo :: "string \<Rightarrow> database \<Rightarrow> archivo option" where
  "find_archivo nombre d = find (\<lambda>a. a_nombre a = nombre) (archivos d)"

definition find_owned :: "string \<Rightarrow> nat \<Rightarrow> database \<Rightarrow> archivo option" where
  "find_owned nombre docente d =
     find (\<lambda>a. a_nombre a = nombre \<and> a_docente_id a = docente) (archivos d)"

section \<open>files.py\<close>

subsection \<open>\<open>data_for_upload\<close>\<close>

text \<open>The caller is the logged-in teacher (\<open>@login_required\<close>); the two queries do not use it.\<close>

definition data_for_upload :: "nat \<Rightarrow> world \<Rightarrow> response" where
  "data_for_upload current_user w =
     (let materias_list = remdups (map m_nombre (materias (db w)));
          periodos_list = remdups (map c_periodo (cursos (db w)))
      in Response 200 (JsonUploadData materias_list periodos_list))"

subsection \<open>\<open>upload_pdf\<close>\<close>

record upload_request =
  pdfFile :: "(string \<times> string) option"
  materia_name_field :: string
  periodo_field :: string


text \<open>Lines 73 and 74: the stored name.\<close>

definition upload_filename :: "lib \<Rightarrow> upload_request \<Rightarrow> string" where
  "upload_filename L req =
     (case pdfFile req of
        None \<Rightarrow> []
      | Some (fname, bytes) \<Rightarrow>
          secure_filename L (strip (materia_name_field req) @ ''_'' @ strip (periodo_field req)
                             @ ''_'' @ splitext_root L fname @ ''.pdf''))"

text \<open>Lines 80 to 84: find the subject, or add and flush a new one.\<close>

definition ensure_materia :: "env \<Rightarrow> string \<Rightarrow> database \<Rightarrow> exn + (materia \<times> database)" where
  "ensure_materia ev materia_name d =
     (case find_materia materia_name d of
        Some m \<Rightarrow> Inr (m, d)
      | None \<Rightarrow>
          (case flush_materia ev of
             Some x \<Rightarrow> Inl x
           | None \<Rightarrow>
               (let m = \<lparr>m_id = next_id (map m_id (materias d)), m_nombre = materia_name\<rparr>
                in Inr (m, d\<lparr>materias := materias d @ [m]\<rparr>))))"

text \<open>Lines 87 to 100: find the course of (teacher, subject, period), or add and flush a new one.\<close>

definition ensure_curso :: "env \<Rightarrow> nat \<Rightarrow> nat \<Rightarrow> string \<Rightarrow> database \<Rightarrow> exn + (curso \<times> database)" where
  "ensure_curso ev current_user mid periodo d =
     (case find_curso current_user mid periodo d of
        Some c \<Rightarrow> Inr (c, d)
      | None \<Rightarrow>
          (case flush_curso ev of
             Some x \<Rightarrow> Inl x
           | None \<Rightarrow>
               (let c = \<lparr>c_id = next_id (map c_id (cursos d)), c_docente_id = current_user,
                         c_materia_id = mid, c_periodo = periodo\<rparr>
                in Inr (c, d\<lparr>cursos := cursos d @ [c]\<rparr>))))"

text \<open>
  Lines 121 to 131, the two handlers. Both roll the session back, so the database is the
  committed one of \<open>w\<close>; \<open>f\<close> is the upload directory when the exception was raised. An
  exception of \<open>os.remove\<close> inside the second handler is not caught: the framework answers 500.
\<close>

definition upload_handler :: "env \<Rightarrow> exn \<Rightarrow> string \<Rightarrow> string \<Rightarrow> world \<Rightarrow> (string \<rightharpoonup> string) \<Rightarrow> response \<times> world" where
  "upload_handler ev x filename filepath w f =
     (case x of
        IntegrityError s \<Rightarrow> (Response 409 (MsgIntegrity filename), w\<lparr>fs := f\<rparr>)
      | OtherError e \<Rightarrow>
          (let w1 = w\<lparr>fs := f, log := log w @ [LogUploadError e]\<rparr>
           in if os_path_exists f filepath then
                (case os_remove (remove ev) filepath f of
                   Inl e' \<Rightarrow> (Response 500 InternalServerError, w1)
                 | Inr f' \<Rightarrow> (Response 500 (MsgUploadUnexpected e), w1\<lparr>fs := f'\<rparr>))
              else (Response 500 (MsgUploadUnexpected e), w1)))"

text \<open>Lines 102 to 119: the name check, the physical write, the record and the commit.\<close>

definition upload_store :: "env \<Rightarrow> nat \<Rightarrow> string \<Rightarrow> string \<Rightarrow> curso \<Rightarrow> database \<Rightarrow> world \<Rightarrow> response \<times> world" where
  "upload_store ev current_user filename bytes c d w =
     (let filepath = os_path_join UPLOAD_FOLDER filename
      in if find_archivo filename d \<noteq> None then (Response 409 (MsgAlreadyExists filename), w)
         else
           (case file_save (save ev) filepath bytes (fs w) of
              Inl e \<Rightarrow> upload_handler ev (OtherError e) filename filepath w (fs w)
            | Inr f \<Rightarrow>
                (let a = \<lparr>a_id = next_id (map a_id (archivos d)), a_nombre = filename,
                          a_fecha_subida = now ev, a_docente_id = current_user, a_curso_id = c_id c\<rparr>
                 in case commit ev of
                      Some x \<Rightarrow> upload_handler ev x filename filepath w f
                    | None \<Rightarrow>
                        (Response 200 MsgUploadOk, w\<lparr>db := d\<lparr>archivos := archivos d @ [a]\<rparr>, fs := f\<rparr>))))"

definition upload_pdf :: "lib \<Rightarrow> env \<Rightarrow> nat \<Rightarrow> upload_request \<Rightarrow> world \<Rightarrow> response \<times> world" where
  "upload_pdf L ev current_user req w =
     (case pdfFile req of
        None \<Rightarrow> (Response 400 MsgMissingFields, w)
      | Some (fname, bytes) \<Rightarrow>
          (let materia_name = strip (materia_name_field req);
               periodo = strip (periodo_field req)
           in if fname = [] \<or> materia_name = [] \<or> periodo = [] then (Response 400 MsgMissingFields, w)
              else if \<not> endswith (lower fname) ''.pdf'' then (Response 400 MsgBadFormat, w)
              else
                (let filename = upload_filename L req;
                     filepath = os_path_join UPLOAD_FOLDER filename
                 in case ensure_materia ev materia_name (db w) of
                      Inl x \<Rightarrow> upload_handler ev x filename filepath w (fs w)
                    | Inr (m, d1) \<Rightarrow>
                        (case ensure_curso ev current_user (m_id m) periodo d1 of
                           Inl x \<Rightarrow> upload_handler ev x filename filepath w (fs w)
                         | Inr (c, d2) \<Rightarrow> upload_store ev current_user filename bytes c d2 w))))"

subsection \<open>\<open>view_file\<close> and \<open>download_file\<close>\<close>

text \<open>\<open>send_from_directory\<close> answers 404 for a file that is not in the directory, as
  \<open>abort(404)\<close> does. The flag is \<open>as_attachment\<close>.\<close>

definition send_from_directory :: "string \<Rightarrow> string \<Rightarrow> bool \<Rightarrow> (string \<rightharpoonup> string) \<Rightarrow> response" where
  "send_from_directory dir filename as_attachment f =
     (case f (os_path_join dir filename) of
        None \<Rightarrow> Response 404 NotFound
      | Some bytes \<Rightarrow> Response 200 (SendFile bytes as_attachment))"

definition view_file :: "nat \<Rightarrow> string \<Rightarrow> world \<Rightarrow> response" where
  "view_file current_user filename w =
     (case find_owned filename current_user (db w) of
        None \<Rightarrow> Response 404 NotFound
      | Some archivo \<Rightarrow> send_from_directory UPLOAD_FOLDER filename False (fs w))"

definition download_file :: "nat \<Rightarrow> string \<Rightarrow> world \<Rightarrow> response" where
  "download_file current_user filename w =
     (case find_owned filename current_user (db w) of
        None \<Rightarrow> Response 404 NotFound
      | Some archivo \<Rightarrow> send_from_directory UPLOAD_FOLDER filename True (fs w))"

subsection \<open>\<open>delete_file\<close>\<close>

text \<open>\<open>db.session.delete\<close> removes the row with the record's primary key.\<close>

definition delete_row :: "archivo \<Rightarrow> database \<Rightarrow> database" where
  "delete_row a d = d\<lparr>archivos := filter (\<lambda>r. a_id r \<noteq> a_id a) (archivos d)\<rparr>"

text \<open>The rollback of line 188 after a commit that went through restores nothing.\<close>

definition delete_file :: "env \<Rightarrow> nat \<Rightarrow> string \<Rightarrow> world \<Rightarrow> response \<times> world" where
  "delete_file ev current_user filename w =
     (case find_owned filename current_user (db w) of
        None \<Rightarrow> (Response 404 MsgDeleteNotFound, w)
      | Some archivo_db \<Rightarrow>
          (let filepath = os_path_join UPLOAD_FOLDER filename
           in case commit ev of
                Some x \<Rightarrow>
                  (Response 500 (MsgDeleteError (str x)), w\<lparr>log := log w @ [LogDeleteError (str x)]\<rparr>)
              | None \<Rightarrow>
                  (let w1 = w\<lparr>db := delete_row archivo_db (db w)\<rparr>
                   in if os_path_exists (fs w) filepath then
                        (case os_remove (remove ev) filepath (fs w) of
                           Inl e \<Rightarrow> (Response 500 (MsgDeleteError e), w1\<lparr>log := log w @ [LogDeleteError e]\<rparr>)
                         | Inr f \<Rightarrow> (Response 200 (MsgDeleted filename), w1\<lparr>fs := f\<rparr>))
                      else (Response 200 (MsgDeleted filename), w1))))"

subsection \<open>\<open>rename_file\<close>\<close>

text \<open>Lines 207 to 213: the sanitized name with the extension forced.\<close>

definition final_name :: "lib \<Rightarrow> string \<Rightarrow> string" where
  "final_name L new_name_raw =
     (let clean_new_name = secure_filename L new_name_raw
      in if \<not> endswith (lower clean_new_name) ''.pdf'' then clean_new_name @ ''.pdf''
         else clean_new_name)"

text \<open>The \<open>UPDATE\<close> of the record's name, by primary key.\<close>

definition rename_row :: "archivo \<Rightarrow> string \<Rightarrow> database \<Rightarrow> database" where
  "rename_row a n d =
     d\<lparr>archivos := map (\<lambda>r. if a_id r = a_id a then r\<lparr>a_nombre := n\<rparr> else r) (archivos d)\<rparr>"

text \<open>Lines 239 to 252: the commit, and the way back when it fails. \<open>w1\<close> is the world after
  step 3.\<close>

definition rename_commit :: "env \<Rightarrow> archivo \<Rightarrow> string \<Rightarrow> string \<Rightarrow> string \<Rightarrow> world \<Rightarrow> response \<times> world" where
  "rename_commit ev archivo_db final_new_name old_path new_path w1 =
     (case commit ev of
        None \<Rightarrow> (Response 200 (MsgRenamed final_new_name),
                  w1\<lparr>db := rename_row archivo_db final_new_name (db w1)\<rparr>)
      | Some x \<Rightarrow>
          (let w2 = (case os_rename (rename_back ev) new_path old_path (fs w1) of
                       Inl rollback_e \<Rightarrow> w1\<lparr>log := log w1 @ [LogCritical rollback_e]\<rparr>
                     | Inr f \<Rightarrow> w1\<lparr>fs := f\<rparr>)
           in (Response 500 (MsgRenameDbError (str x)),
               w2\<lparr>log := log w2 @ [LogRenameDbError (str x)]\<rparr>)))"

definition rename_file :: "lib \<Rightarrow> env \<Rightarrow> nat \<Rightarrow> string option \<Rightarrow> string option \<Rightarrow> world \<Rightarrow> response \<times> world" where
  "rename_file L ev current_user old_name_opt new_name_opt w =
     (case (old_name_opt, new_name_opt) of
        (Some old_name, Some new_name_raw) \<Rightarrow>
          if old_name = [] \<or> new_name_raw = [] then (Response 400 MsgRenameMissing, w)
          else
            (let final_new_name = final_name L new_name_raw;
                 old_path = os_path_join UPLOAD_FOLDER old_name;
                 new_path = os_path_join UPLOAD_FOLDER final_new_name
             in case find_owned old_name current_user (db w) of
                  None \<Rightarrow> (Response 404 MsgRenameNotFound, w)
                | Some archivo_db \<Rightarrow>
                    if find_archivo final_new_name (db w) \<noteq> None then (Response 400 MsgRenameConflict, w)
                    else if os_path_exists (fs w) old_path then
                      (case os_rename (rename ev) old_path new_path (fs w) of
                         Inl e \<Rightarrow> (Response 500 (MsgRenameFsError e), w)
                       | Inr f \<Rightarrow> rename_commit ev archivo_db final_new_name old_path new_path (w\<lparr>fs := f\<rparr>))
                    else rename_commit ev archivo_db final_new_name old_path new_path
                           (w\<lparr>log := log w @ [LogPhysicalMissing old_path]\<rparr>))
      | _ \<Rightarrow> (Response 400 MsgRenameMissing, w))"

subsection \<open>\<open>list_files\<close>\<close>







subsection \<open>The listing as the specification words it\<close>



section \<open>Example data\<close>

text \<open>
  An instance of the library functions for the examples: on a name made of letters, digits,
  \<open>_\<close> and inner dots the sanitizer returns the name, and the root of a name with a
  four-character extension and no directory part is the name without it.
\<close>

definition lib0 :: lib where
  "lib0 = \<lparr>secure_filename = (\<lambda>s. s), splitext_root = (\<lambda>s. take (length s - 4) s),
           strftime = (\<lambda>t. [])\<rparr>"

definition env_ok :: env where
  "env_ok = \<lparr>flush_materia = None, flush_curso = None, save = None, commit = None,
             remove = None, rename = None, rename_back = None, now = 100\<rparr>"

text \<open>Teacher 1 has uploaded \<open>notes.pdf\<close> for Algebra, period 2024A.\<close>

definition db0 :: database where
  "db0 = \<lparr>materias = [\<lparr>m_id = 1, m_nombre = ''Algebra''\<rparr>],
          cursos = [\<lparr>c_id = 1, c_docente_id = 1, c_materia_id = 1, c_periodo = ''2024A''\<rparr>],
          archivos = [\<lparr>a_id = 1, a_nombre = ''Algebra_2024A_notes.pdf'', a_fecha_subida = 50,
                       a_docente_id = 1, a_curso_id = 1\<rparr>]\<rparr>"

definition w0 :: world where
  "w0 = \<lparr>db = db0, fs = [''uploads/Algebra_2024A_notes.pdf'' \<mapsto> ''old bytes''], log = []\<rparr>"

text \<open>The same database with the physical file missing.\<close>

definition w_nofile :: world where
  "w_nofile = \<lparr>db = db0, fs = Map.empty, log = []\<rparr>"

definition req0 :: upload_request where
  "req0 = \<lparr>pdfFile = Some (''notes.pdf'', ''new bytes''), materia_name_field = ''Algebra'',
           periodo_field = ''2024A''\<rparr>"

definition w_empty :: world where
  "w_empty = \<lparr>db = \<lparr>materias = [], cursos = [], archivos = []\<rparr>, fs = Map.empty, log = []\<rparr>"

text \<open>A second file for the same subject and period.\<close>

definition req1 :: upload_request where
  "req1 = \<lparr>pdfFile = Some (''other.pdf'', ''new bytes''), materia_name_field = ''Algebra'',
           periodo_field = ''2024A''\<rparr>"

section \<open>Helper lemmas\<close>

lemma find_owned_SomeD:
  "find_owned f u d = Some a \<Longrightarrow> a_nombre a = f \<and> a_docente_id a = u \<and> a \<in> set (archivos d)"
  by (auto simp: find_owned_def find_Some_iff)

lemma not_in_delete_row: "a \<notin> set (archivos (delete_row a d))"
  by (simp add: delete_row_def)

section \<open>Retrieval\<close>

text \<open>
  Claim C8. \<open>view_file\<close> and \<open>download_file\<close> answer something other than 404 only when a
  record with exactly that name and owned by the caller exists; without such a record the
  answer is the one fixed 404 response, so two worlds in which the caller owns no record of
  that name (the name unknown in one, owned by another teacher in the other) give the same
  response.
\<close>

theorem view_download_owner_only:
  "(find_owned f u (db w) = None \<longrightarrow>
      view_file u f w = Response 404 NotFound \<and> download_file u f w = Response 404 NotFound)
   \<and> (status (view_file u f w) \<noteq> 404 \<longrightarrow>
        (\<exists>a \<in> set (archivos (db w)). a_nombre a = f \<and> a_docente_id a = u))
   \<and> (status (download_file u f w) \<noteq> 404 \<longrightarrow>
        (\<exists>a \<in> set (archivos (db w)). a_nombre a = f \<and> a_docente_id a = u))
   \<and> (find_owned f u (db w) = None \<and> find_owned f u (db w') = None \<longrightarrow>
        view_file u f w = view_file u f w' \<and> download_file u f w = download_file u f w')"
  by (auto simp: view_file_def download_file_def split: option.splits dest: find_owned_SomeD)

theorem view_download_owner_only_witness:
  "find_owned ''Algebra_2024A_notes.pdf'' 2 (db w0) = None
   \<and> find_owned ''Algebra_2024A_notes.pdf'' 2 (db w_empty) = None
   \<and> find_archivo ''Algebra_2024A_notes.pdf'' (db w0) \<noteq> None
   \<and> find_archivo ''Algebra_2024A_notes.pdf'' (db w_empty) = None
   \<and> view_file 2 ''Algebra_2024A_notes.pdf'' w0 = Response 404 NotFound
   \<and> view_file 2 ''Algebra_2024A_notes.pdf'' w0 = view_file 2 ''Algebra_2024A_notes.pdf'' w_empty
   \<and> download_file 2 ''Algebra_2024A_notes.pdf'' w0 = download_file 2 ''Algebra_2024A_notes.pdf'' w_empty
   \<and> status (view_file 1 ''Algebra_2024A_notes.pdf'' w0) \<noteq> 404
   \<and> status (download_file 1 ''Algebra_2024A_notes.pdf'' w0) \<noteq> 404
   \<and> (\<exists>a \<in> set (archivos (db w0)). a_nombre a = ''Algebra_2024A_notes.pdf'' \<and> a_docente_id a = 1)"
  using view_download_owner_only [of "''Algebra_2024A_notes.pdf''" 2 w0 w_empty]
        view_download_owner_only [of "''Algebra_2024A_notes.pdf''" 1 w0 w0]
  by (simp add: w0_def w_empty_def db0_def find_owned_def find_archivo_def view_file_def
        download_file_def send_from_directory_def os_path_join_def UPLOAD_FOLDER_def)

text \<open>
  Claim C10. \<open>data_for_upload\<close> returns the subject names of all subjects and the periods of
  all courses, each once, whoever the caller is and whoever owns the courses.
\<close>

theorem data_for_upload_global:
  "\<exists>ms ps. data_for_upload u w = Response 200 (JsonUploadData ms ps)
     \<and> distinct ms \<and> set ms = m_nombre ` set (materias (db w))
     \<and> distinct ps \<and> set ps = c_periodo ` set (cursos (db w))
     \<and> data_for_upload u' w = data_for_upload u w"
  by (simp add: data_for_upload_def)

section \<open>Delete\<close>

text \<open>
  Claim C9. When the deletion is committed and the removal of the physical file then raises,
  \<open>delete_file\<close> answers 500, the record stays deleted and the file stays on disk.
\<close>

theorem delete_remove_fails:
  assumes "find_owned f u (db w) = Some a" and "commit ev = None"
    and "os_path_exists (fs w) (os_path_join UPLOAD_FOLDER f)" and "remove ev = Some e"
  shows "fst (delete_file ev u f w) = Response 500 (MsgDeleteError e)
         \<and> db (snd (delete_file ev u f w)) = delete_row a (db w)
         \<and> a \<notin> set (archivos (db (snd (delete_file ev u f w))))
         \<and> find_owned f u (db w) \<noteq> None
         \<and> fs (snd (delete_file ev u f w)) = fs w"
  using assms
  by (auto simp: delete_file_def os_remove_def os_path_exists_def not_in_delete_row Let_def)

theorem delete_remove_fails_witness:
  "find_owned ''Algebra_2024A_notes.pdf'' 1 (db w0) = Some (hd (archivos db0))
   \<and> commit (env_ok\<lparr>remove := Some ''PermissionError''\<rparr>) = None
   \<and> os_path_exists (fs w0) (os_path_join UPLOAD_FOLDER ''Algebra_2024A_notes.pdf'')
   \<and> remove (env_ok\<lparr>remove := Some ''PermissionError''\<rparr>) = Some ''PermissionError''
   \<and> fst (delete_file (env_ok\<lparr>remove := Some ''PermissionError''\<rparr>) 1 ''Algebra_2024A_notes.pdf'' w0)
       = Response 500 (MsgDeleteError ''PermissionError'')
   \<and> archivos (db (snd (delete_file (env_ok\<lparr>remove := Some ''PermissionError''\<rparr>) 1 ''Algebra_2024A_notes.pdf'' w0))) = []"
proof -
  have h1: "find_owned ''Algebra_2024A_notes.pdf'' 1 (db w0) = Some (hd (archivos db0))"
    by (simp add: w0_def db0_def find_owned_def)
  have h2: "commit (env_ok\<lparr>remove := Some ''PermissionError''\<rparr>) = None"
    by (simp add: env_ok_def)
  have h3: "os_path_exists (fs w0) (os_path_join UPLOAD_FOLDER ''Algebra_2024A_notes.pdf'')"
    by (simp add: w0_def os_path_exists_def os_path_join_def UPLOAD_FOLDER_def)
  have h4: "remove (env_ok\<lparr>remove := Some ''PermissionError''\<rparr>) = Some ''PermissionError''"
    by simp
  show ?thesis
    using h1 h2 h3 h4 delete_remove_fails [OF h1 h2 h3 h4]
    by (simp add: delete_row_def w0_def db0_def)
qed

text \<open>
  Claim C4. Without a record of that name owned by the caller, \<open>delete_file\<close> answers 404 and
  changes nothing. With one: a failed commit gives 500 and leaves database and directory as
  they were; a commit that went through has deleted the record; a missing physical file is
  not an error; and whenever the directory has changed, the commit went through and the
  record is gone, so the file is never removed while its record exists.
\<close>

theorem delete_order:
  "(find_owned f u (db w) = None \<longrightarrow> delete_file ev u f w = (Response 404 MsgDeleteNotFound, w))
   \<and> (\<forall>a. find_owned f u (db w) = Some a \<longrightarrow>
        (commit ev \<noteq> None \<longrightarrow>
           status (fst (delete_file ev u f w)) = 500
           \<and> db (snd (delete_file ev u f w)) = db w \<and> fs (snd (delete_file ev u f w)) = fs w)
        \<and> (commit ev = None \<longrightarrow>
             db (snd (delete_file ev u f w)) = delete_row a (db w)
             \<and> a \<notin> set (archivos (db (snd (delete_file ev u f w)))))
        \<and> (commit ev = None \<and> \<not> os_path_exists (fs w) (os_path_join UPLOAD_FOLDER f) \<longrightarrow>
             fst (delete_file ev u f w) = Response 200 (MsgDeleted f)
             \<and> fs (snd (delete_file ev u f w)) = fs w)
        \<and> (commit ev = None \<and> remove ev = None \<longrightarrow>
             fst (delete_file ev u f w) = Response 200 (MsgDeleted f)
             \<and> fs (snd (delete_file ev u f w)) = (fs w)(os_path_join UPLOAD_FOLDER f := None))
        \<and> (fs (snd (delete_file ev u f w)) \<noteq> fs w \<longrightarrow>
             commit ev = None \<and> a \<notin> set (archivos (db (snd (delete_file ev u f w))))))"
  by (auto simp: delete_file_def os_remove_def os_path_exists_def not_in_delete_row Let_def
           split: option.splits sum.splits if_splits)

theorem delete_order_witness:
  "find_owned ''Algebra_2024A_notes.pdf'' 2 (db w0) = None
   \<and> delete_file env_ok 2 ''Algebra_2024A_notes.pdf'' w0 = (Response 404 MsgDeleteNotFound, w0)
   \<and> find_owned ''Algebra_2024A_notes.pdf'' 1 (db w0) = Some (hd (archivos db0))
   \<and> commit (env_ok\<lparr>commit := Some (OtherError ''locked'')\<rparr>) \<noteq> None
   \<and> status (fst (delete_file (env_ok\<lparr>commit := Some (OtherError ''locked'')\<rparr>) 1 ''Algebra_2024A_notes.pdf'' w0)) = 500
   \<and> fs (snd (delete_file (env_ok\<lparr>commit := Some (OtherError ''locked'')\<rparr>) 1 ''Algebra_2024A_notes.pdf'' w0)) = fs w0
   \<and> db (snd (delete_file (env_ok\<lparr>commit := Some (OtherError ''locked'')\<rparr>) 1 ''Algebra_2024A_notes.pdf'' w0)) = db w0
   \<and> commit env_ok = None \<and> remove env_ok = None
   \<and> fs (snd (delete_file env_ok 1 ''Algebra_2024A_notes.pdf'' w0)) \<noteq> fs w0
   \<and> hd (archivos db0) \<notin> set (archivos (db (snd (delete_file env_ok 1 ''Algebra_2024A_notes.pdf'' w0))))
   \<and> find_owned ''Algebra_2024A_notes.pdf'' 1 (db w_nofile) = Some (hd (archivos db0))
   \<and> \<not> os_path_exists (fs w_nofile) (os_path_join UPLOAD_FOLDER ''Algebra_2024A_notes.pdf'')
   \<and> fst (delete_file env_ok 1 ''Algebra_2024A_notes.pdf'' w_nofile)
       = Response 200 (MsgDeleted ''Algebra_2024A_notes.pdf'')"
proof -
  have h1: "find_owned ''Algebra_2024A_notes.pdf'' 2 (db w0) = None"
    by (simp add: w0_def db0_def find_owned_def)
  have h2: "find_owned ''Algebra_2024A_notes.pdf'' 1 (db w0) = Some (hd (archivos db0))"
    by (simp add: w0_def db0_def find_owned_def)
  have h3: "find_owned ''Algebra_2024A_notes.pdf'' 1 (db w_nofile) = Some (hd (archivos db0))"
    by (simp add: w_nofile_def db0_def find_owned_def)
  have h4: "\<not> os_path_exists (fs w_nofile) (os_path_join UPLOAD_FOLDER ''Algebra_2024A_notes.pdf'')"
    by (simp add: w_nofile_def os_path_exists_def)
  have h5: "fs w0 (os_path_join UPLOAD_FOLDER ''Algebra_2024A_notes.pdf'') \<noteq> None"
    by (simp add: w0_def os_path_join_def UPLOAD_FOLDER_def)
  have h6: "(fs w0)(os_path_join UPLOAD_FOLDER ''Algebra_2024A_notes.pdf'' := None) \<noteq> fs w0"
    using h5 by (metis fun_upd_same)
  have c: "commit env_ok = None" "remove env_ok = None"
    by (simp_all add: env_ok_def)
  have c': "commit (env_ok\<lparr>commit := Some (OtherError ''locked'')\<rparr>) \<noteq> None"
    by simp
  show ?thesis
    using h1 h2 h3 h4 h6 c c'
      delete_order [of "''Algebra_2024A_notes.pdf''" 2 w0 env_ok]
      delete_order [of "''Algebra_2024A_notes.pdf''" 1 w0 "env_ok\<lparr>commit := Some (OtherError ''locked'')\<rparr>"]
      delete_order [of "''Algebra_2024A_notes.pdf''" 1 w0 env_ok]
      delete_order [of "''Algebra_2024A_notes.pdf''" 1 w_nofile env_ok]
    by (simp add: not_in_delete_row)
qed

section \<open>Rename\<close>




text \<open>
  Claim C5, as amended. A request that gives both names and whose old name is a record of the
  caller is answered 400 when the final new name is the name of any record, and the world
  is as before. Whatever the old name, a request whose final new name is taken changes
  nothing and is answered 400 or 404.
\<close>

theorem rename_conflict:
  "(old \<noteq> [] \<and> new \<noteq> [] \<and> find_owned old u (db w) \<noteq> None
      \<and> find_archivo (final_name L new) (db w) \<noteq> None \<longrightarrow>
      rename_file L ev u (Some old) (Some new) w = (Response 400 MsgRenameConflict, w))
   \<and> (find_archivo (final_name L new) (db w) \<noteq> None \<longrightarrow>
        snd (rename_file L ev u old_opt (Some new) w) = w
        \<and> (status (fst (rename_file L ev u old_opt (Some new) w)) = 400
            \<or> status (fst (rename_file L ev u old_opt (Some new) w)) = 404))"
  by (auto simp: rename_file_def Let_def split: option.splits)

text \<open>
  Teacher 2 asks to rename \<open>mine.pdf\<close>, which is not a record of theirs, to the name of
  teacher 1's record: the ownership test comes first and the answer is 404, not 400.
\<close>

theorem rename_conflict_counterexample:
  "find_archivo (final_name lib0 ''Algebra_2024A_notes.pdf'') (db w0) \<noteq> None
   \<and> rename_file lib0 env_ok 2 (Some ''mine.pdf'') (Some ''Algebra_2024A_notes.pdf'') w0
       = (Response 404 MsgRenameNotFound, w0)"
  by (simp add: rename_file_def final_name_def lib0_def endswith_def lower_def lower_char_def
        find_archivo_def find_owned_def w0_def db0_def suffix_def)



theorem rename_conflict_witness:
  "''Algebra_2024A_notes.pdf'' \<noteq> []
   \<and> find_owned ''Algebra_2024A_notes.pdf'' 1 (db w0) \<noteq> None
   \<and> find_archivo (final_name lib0 ''Algebra_2024A_notes.pdf'') (db w0) \<noteq> None
   \<and> rename_file lib0 env_ok 1 (Some ''Algebra_2024A_notes.pdf'') (Some ''Algebra_2024A_notes.pdf'') w0
       = (Response 400 MsgRenameConflict, w0)
   \<and> snd (rename_file lib0 env_ok 2 (Some ''mine.pdf'') (Some ''Algebra_2024A_notes.pdf'') w0) = w0"
proof -
  have h1: "find_owned ''Algebra_2024A_notes.pdf'' 1 (db w0) \<noteq> None"
    by (simp add: w0_def db0_def find_owned_def)
  have h2: "find_archivo (final_name lib0 ''Algebra_2024A_notes.pdf'') (db w0) \<noteq> None"
    by (simp add: final_name_def lib0_def endswith_def lower_def lower_char_def
          find_archivo_def w0_def db0_def suffix_def)
  show ?thesis
    using h1 h2
      rename_conflict [of "''Algebra_2024A_notes.pdf''" "''Algebra_2024A_notes.pdf''" 1 w0 lib0 env_ok
                          "Some ''Algebra_2024A_notes.pdf''"]
      rename_conflict [of "''mine.pdf''" "''Algebra_2024A_notes.pdf''" 2 w0 lib0 env_ok "Some ''mine.pdf''"]
    by simp
qed


section \<open>Upload\<close>

lemmas upload_eval =
  upload_pdf_def upload_filename_def upload_store_def upload_handler_def ensure_materia_def
  ensure_curso_def find_materia_def find_curso_def find_archivo_def lib0_def env_ok_def w0_def
  db0_def req0_def req1_def strip_def is_space_def endswith_def lower_def lower_char_def
  suffix_def os_path_join_def UPLOAD_FOLDER_def file_save_def os_remove_def os_path_exists_def
  next_id_def Let_def




text \<open>The two handlers side by side: only the second removes the file.\<close>

lemma upload_handler_integrity:
  "upload_handler ev (IntegrityError s) n p w f = (Response 409 (MsgIntegrity n), w\<lparr>fs := f\<rparr>)"
  by (simp add: upload_handler_def)

lemma upload_handler_other:
  "remove ev = None \<Longrightarrow> f p \<noteq> None \<Longrightarrow>
   upload_handler ev (OtherError e) n p w f
     = (Response 500 (MsgUploadUnexpected e), w\<lparr>fs := f(p := None), log := log w @ [LogUploadError e]\<rparr>)"
  by (auto simp: upload_handler_def os_remove_def os_path_exists_def Let_def)

text \<open>
  Claim C1. Teacher 1 uploads \<open>other.pdf\<close>; the name is free, the file is written, and the
  commit raises \<open>IntegrityError\<close> (a concurrent request has taken the name, or the teacher's
  row is gone). The answer is 409 and the file just written is still in the directory, with
  no record for it: the first handler does not do the cleanup that the second one does.
\<close>

theorem upload_integrity_keeps_file:
  "find_archivo ''Algebra_2024A_other.pdf'' (db w0) = None
   \<and> fs w0 ''uploads/Algebra_2024A_other.pdf'' = None
   \<and> upload_pdf lib0 (env_ok\<lparr>commit := Some (IntegrityError ''UNIQUE constraint failed'')\<rparr>) 1 req1 w0
       = (Response 409 (MsgIntegrity ''Algebra_2024A_other.pdf''),
          w0\<lparr>fs := (fs w0)(''uploads/Algebra_2024A_other.pdf'' \<mapsto> ''new bytes'')\<rparr>)"
  by (simp add: upload_eval)








section \<open>List\<close>

















end
